theory Spec2Isabelle
  imports Main "HOL-Library.AList" "HOL-Library.List_Lexorder" "HOL-Library.Word"
begin

section \<open>Text\<close>

text \<open>
  A Python \<open>str\<close> is a sequence of Unicode code points, so text is a list of natural
  numbers here, one per code point. \<open>str_of\<close> reads an ASCII literal.
\<close>

type_synonym ustr = "nat list"

definition str_of :: "string \<Rightarrow> ustr" where
  "str_of s = map of_char s"

definition ascii_upper :: "nat \<Rightarrow> bool" where
  "ascii_upper c = (65 \<le> c \<and> c \<le> 90)"

definition ascii_lower :: "nat \<Rightarrow> bool" where
  "ascii_lower c = (97 \<le> c \<and> c \<le> 122)"

definition ascii_digit :: "nat \<Rightarrow> bool" where
  "ascii_digit c = (48 \<le> c \<and> c \<le> 57)"

text \<open>The character classes \<open>[a-zA-Z_]\<close> and \<open>[a-zA-Z0-9_]\<close> of the two substitutions.\<close>

definition ident_start :: "nat \<Rightarrow> bool" where
  "ident_start c = (ascii_lower c \<or> ascii_upper c \<or> c = 95)"

definition ident_char :: "nat \<Rightarrow> bool" where
  "ident_char c = (ascii_lower c \<or> ascii_upper c \<or> ascii_digit c \<or> c = 95)"

section \<open>Letter case\<close>

text \<open>
  The tables of letter case are those of the interpreter's Unicode database; the rows below
  are the database of CPython 3.11 (Unicode 14.0). A row \<open>(lo, hi, step, img)\<close> of a mapping
  table stands for the code points \<open>lo\<close>, \<open>lo + step\<close>, ... up to \<open>hi\<close>, which are mapped to
  \<open>img\<close>, \<open>img + step\<close>, ...; every other code point is mapped to itself.
  The rows are in increasing order, so a search ends at the first row that starts beyond the
  code point looked for. The rows of the ASCII letters are repeated in the functions
  themselves, so that ASCII text is decided without the tables.
\<close>

fun range_image :: "(nat \<times> nat \<times> nat \<times> nat) list \<Rightarrow> nat \<Rightarrow> nat" where
  "range_image [] c = c"
| "range_image ((lo, hi, step, img) # rest) c =
     (if c < lo then c
      else if c \<le> hi \<and> (c - lo) mod step = 0 then img + (c - lo)
      else range_image rest c)"

fun in_ranges :: "(nat \<times> nat) list \<Rightarrow> nat \<Rightarrow> bool" where
  "in_ranges [] c = False"
| "in_ranges ((lo, hi) # rest) c =
     (if c < lo then False else if c \<le> hi then True else in_ranges rest c)"

fun entry_of :: "(nat \<times> nat list) list \<Rightarrow> nat \<Rightarrow> nat list" where
  "entry_of [] c = []"
| "entry_of ((k, v) # rest) c =
     (if c < k then [] else if c = k then v else entry_of rest c)"

text \<open>\<open>_sre.unicode_tolower\<close>: the simple lower-case mapping.\<close>

definition tolower_table :: "(nat \<times> nat \<times> nat \<times> nat) list" where
  "tolower_table =
     [(65, 90, 1, 97), (192, 214, 1, 224), (216, 222, 1, 248), (256, 302, 2, 257),
      (304, 304, 1, 105), (306, 310, 2, 307), (313, 327, 2, 314), (330, 374, 2, 331),
      (376, 376, 1, 255), (377, 381, 2, 378), (385, 385, 1, 595), (386, 388, 2, 387),
      (390, 390, 1, 596), (391, 391, 1, 392), (393, 394, 1, 598), (395, 395, 1, 396),
      (398, 398, 1, 477), (399, 399, 1, 601), (400, 400, 1, 603), (401, 401, 1, 402),
      (403, 403, 1, 608), (404, 404, 1, 611), (406, 406, 1, 617), (407, 407, 1, 616),
      (408, 408, 1, 409), (412, 412, 1, 623), (413, 413, 1, 626), (415, 415, 1, 629),
      (416, 420, 2, 417), (422, 422, 1, 640), (423, 423, 1, 424), (425, 425, 1, 643),
      (428, 428, 1, 429), (430, 430, 1, 648), (431, 431, 1, 432), (433, 434, 1, 650),
      (435, 437, 2, 436), (439, 439, 1, 658), (440, 440, 1, 441), (444, 444, 1, 445),
      (452, 452, 1, 454), (453, 453, 1, 454), (455, 455, 1, 457), (456, 456, 1, 457),
      (458, 458, 1, 460), (459, 475, 2, 460), (478, 494, 2, 479), (497, 497, 1, 499),
      (498, 500, 2, 499), (502, 502, 1, 405), (503, 503, 1, 447), (504, 542, 2, 505),
      (544, 544, 1, 414), (546, 562, 2, 547), (570, 570, 1, 11365), (571, 571, 1, 572),
      (573, 573, 1, 410), (574, 574, 1, 11366), (577, 577, 1, 578), (579, 579, 1, 384),
      (580, 580, 1, 649), (581, 581, 1, 652), (582, 590, 2, 583), (880, 882, 2, 881),
      (886, 886, 1, 887), (895, 895, 1, 1011), (902, 902, 1, 940), (904, 906, 1, 941),
      (908, 908, 1, 972), (910, 911, 1, 973), (913, 929, 1, 945), (931, 939, 1, 963),
      (975, 975, 1, 983), (984, 1006, 2, 985), (1012, 1012, 1, 952), (1015, 1015, 1, 1016),
      (1017, 1017, 1, 1010), (1018, 1018, 1, 1019), (1021, 1023, 1, 891), (1024, 1039, 1, 1104),
      (1040, 1071, 1, 1072), (1120, 1152, 2, 1121), (1162, 1214, 2, 1163),
      (1216, 1216, 1, 1231), (1217, 1229, 2, 1218), (1232, 1326, 2, 1233),
      (1329, 1366, 1, 1377), (4256, 4293, 1, 11520), (4295, 4295, 1, 11559),
      (4301, 4301, 1, 11565), (5024, 5103, 1, 43888), (5104, 5109, 1, 5112),
      (7312, 7354, 1, 4304), (7357, 7359, 1, 4349), (7680, 7828, 2, 7681), (7838, 7838, 1, 223),
      (7840, 7934, 2, 7841), (7944, 7951, 1, 7936), (7960, 7965, 1, 7952),
      (7976, 7983, 1, 7968), (7992, 7999, 1, 7984), (8008, 8013, 1, 8000),
      (8025, 8031, 2, 8017), (8040, 8047, 1, 8032), (8072, 8079, 1, 8064),
      (8088, 8095, 1, 8080), (8104, 8111, 1, 8096), (8120, 8121, 1, 8112),
      (8122, 8123, 1, 8048), (8124, 8124, 1, 8115), (8136, 8139, 1, 8050),
      (8140, 8140, 1, 8131), (8152, 8153, 1, 8144), (8154, 8155, 1, 8054),
      (8168, 8169, 1, 8160), (8170, 8171, 1, 8058), (8172, 8172, 1, 8165),
      (8184, 8185, 1, 8056), (8186, 8187, 1, 8060), (8188, 8188, 1, 8179), (8486, 8486, 1, 969),
      (8490, 8490, 1, 107), (8491, 8491, 1, 229), (8498, 8498, 1, 8526), (8544, 8559, 1, 8560),
      (8579, 8579, 1, 8580), (9398, 9423, 1, 9424), (11264, 11311, 1, 11312),
      (11360, 11360, 1, 11361), (11362, 11362, 1, 619), (11363, 11363, 1, 7549),
      (11364, 11364, 1, 637), (11367, 11371, 2, 11368), (11373, 11373, 1, 593),
      (11374, 11374, 1, 625), (11375, 11375, 1, 592), (11376, 11376, 1, 594),
      (11378, 11378, 1, 11379), (11381, 11381, 1, 11382), (11390, 11391, 1, 575),
      (11392, 11490, 2, 11393), (11499, 11501, 2, 11500), (11506, 11506, 1, 11507),
      (42560, 42604, 2, 42561), (42624, 42650, 2, 42625), (42786, 42798, 2, 42787),
      (42802, 42862, 2, 42803), (42873, 42875, 2, 42874), (42877, 42877, 1, 7545),
      (42878, 42886, 2, 42879), (42891, 42891, 1, 42892), (42893, 42893, 1, 613),
      (42896, 42898, 2, 42897), (42902, 42920, 2, 42903), (42922, 42922, 1, 614),
      (42923, 42923, 1, 604), (42924, 42924, 1, 609), (42925, 42925, 1, 620),
      (42926, 42926, 1, 618), (42928, 42928, 1, 670), (42929, 42929, 1, 647),
      (42930, 42930, 1, 669), (42931, 42931, 1, 43859), (42932, 42946, 2, 42933),
      (42948, 42948, 1, 42900), (42949, 42949, 1, 642), (42950, 42950, 1, 7566),
      (42951, 42953, 2, 42952), (42960, 42960, 1, 42961), (42966, 42968, 2, 42967),
      (42997, 42997, 1, 42998), (65313, 65338, 1, 65345), (66560, 66599, 1, 66600),
      (66736, 66771, 1, 66776), (66928, 66938, 1, 66967), (66940, 66954, 1, 66979),
      (66956, 66962, 1, 66995), (66964, 66965, 1, 67003), (68736, 68786, 1, 68800),
      (71840, 71871, 1, 71872), (93760, 93791, 1, 93792), (125184, 125217, 1, 125218)]"

definition unicode_tolower :: "nat \<Rightarrow> nat" where
  "unicode_tolower c =
     (if c < 128 then (if ascii_upper c then c + 32 else c)
      else range_image tolower_table c)"

text \<open>
  \<open>_sre.unicode_iscased\<close>: the code points that differ from their simple lower-case or
  from their simple upper-case image.
\<close>

definition cased_table :: "(nat \<times> nat) list" where
  "cased_table =
     [(65, 90), (97, 122), (181, 181), (192, 214), (216, 246), (248, 311), (313, 396),
      (398, 410), (412, 425), (428, 441), (444, 445), (447, 447), (452, 544), (546, 563),
      (570, 596), (598, 599), (601, 601), (603, 604), (608, 609), (611, 611), (613, 614),
      (616, 620), (623, 623), (625, 626), (629, 629), (637, 637), (640, 640), (642, 643),
      (647, 652), (658, 658), (669, 670), (837, 837), (880, 883), (886, 887), (891, 893),
      (895, 895), (902, 902), (904, 906), (908, 908), (910, 929), (931, 977), (981, 1013),
      (1015, 1019), (1021, 1153), (1162, 1327), (1329, 1366), (1377, 1415), (4256, 4293),
      (4295, 4295), (4301, 4301), (4304, 4346), (4349, 4351), (5024, 5109), (5112, 5117),
      (7296, 7304), (7312, 7354), (7357, 7359), (7545, 7545), (7549, 7549), (7566, 7566),
      (7680, 7835), (7838, 7838), (7840, 7957), (7960, 7965), (7968, 8005), (8008, 8013),
      (8016, 8023), (8025, 8025), (8027, 8027), (8029, 8029), (8031, 8061), (8064, 8116),
      (8118, 8124), (8126, 8126), (8130, 8132), (8134, 8140), (8144, 8147), (8150, 8155),
      (8160, 8172), (8178, 8180), (8182, 8188), (8486, 8486), (8490, 8491), (8498, 8498),
      (8526, 8526), (8544, 8575), (8579, 8580), (9398, 9449), (11264, 11376), (11378, 11379),
      (11381, 11382), (11390, 11491), (11499, 11502), (11506, 11507), (11520, 11557),
      (11559, 11559), (11565, 11565), (42560, 42605), (42624, 42651), (42786, 42799),
      (42802, 42863), (42873, 42887), (42891, 42893), (42896, 42900), (42902, 42926),
      (42928, 42954), (42960, 42961), (42966, 42969), (42997, 42998), (43859, 43859),
      (43888, 43967), (64256, 64262), (64275, 64279), (65313, 65338), (65345, 65370),
      (66560, 66639), (66736, 66771), (66776, 66811), (66928, 66938), (66940, 66954),
      (66956, 66962), (66964, 66965), (66967, 66977), (66979, 66993), (66995, 67001),
      (67003, 67004), (68736, 68786), (68800, 68850), (71840, 71903), (93760, 93823),
      (125184, 125251)]"

definition unicode_iscased :: "nat \<Rightarrow> bool" where
  "unicode_iscased c =
     (if c < 128 then ascii_upper c \<or> ascii_lower c else in_ranges cased_table c)"

text \<open>
  \<open>re._casefix._EXTRA_CASES\<close>: for a lower-case code point, the further lower-case code
  points that match it when case is ignored.
\<close>

definition EXTRA_CASES :: "(nat \<times> nat list) list" where
  "EXTRA_CASES =
     [(105, [305]), (115, [383]), (181, [956]), (305, [105]), (383, [115]), (837, [953, 8126]),
      (912, [8147]), (944, [8163]), (946, [976]), (949, [1013]), (952, [977]),
      (953, [837, 8126]), (954, [1008]), (956, [181]), (960, [982]), (961, [1009]),
      (962, [963]), (963, [962]), (966, [981]), (976, [946]), (977, [952]), (981, [966]),
      (982, [960]), (1008, [954]), (1009, [961]), (1013, [949]), (1074, [7296]), (1076, [7297]),
      (1086, [7298]), (1089, [7299]), (1090, [7300, 7301]), (1098, [7302]), (1123, [7303]),
      (7296, [1074]), (7297, [1076]), (7298, [1086]), (7299, [1089]), (7300, [1090, 7301]),
      (7301, [1090, 7300]), (7302, [1098]), (7303, [1123]), (7304, [42571]), (7777, [7835]),
      (7835, [7777]), (8126, [837, 953]), (8147, [912]), (8163, [944]), (42571, [7304]),
      (64261, [64262]), (64262, [64261])]"

definition extra_cases :: "nat \<Rightarrow> nat list" where
  "extra_cases lo =
     (if lo < 128 then (if lo = 105 then [305] else if lo = 115 then [383] else [])
      else entry_of EXTRA_CASES lo)"

text \<open>
  \<open>str.upper()\<close> maps every code point on its full upper-case image, which has one code
  point (\<open>toupper_table\<close>) or several (\<open>toupper_special\<close>).
\<close>

definition toupper_table :: "(nat \<times> nat \<times> nat \<times> nat) list" where
  "toupper_table =
     [(97, 122, 1, 65), (181, 181, 1, 924), (224, 246, 1, 192), (248, 254, 1, 216),
      (255, 255, 1, 376), (257, 303, 2, 256), (305, 305, 1, 73), (307, 311, 2, 306),
      (314, 328, 2, 313), (331, 375, 2, 330), (378, 382, 2, 377), (383, 383, 1, 83),
      (384, 384, 1, 579), (387, 389, 2, 386), (392, 392, 1, 391), (396, 396, 1, 395),
      (402, 402, 1, 401), (405, 405, 1, 502), (409, 409, 1, 408), (410, 410, 1, 573),
      (414, 414, 1, 544), (417, 421, 2, 416), (424, 424, 1, 423), (429, 429, 1, 428),
      (432, 432, 1, 431), (436, 438, 2, 435), (441, 441, 1, 440), (445, 445, 1, 444),
      (447, 447, 1, 503), (453, 453, 1, 452), (454, 454, 1, 452), (456, 456, 1, 455),
      (457, 457, 1, 455), (459, 459, 1, 458), (460, 460, 1, 458), (462, 476, 2, 461),
      (477, 477, 1, 398), (479, 495, 2, 478), (498, 498, 1, 497), (499, 499, 1, 497),
      (501, 501, 1, 500), (505, 543, 2, 504), (547, 563, 2, 546), (572, 572, 1, 571),
      (575, 576, 1, 11390), (578, 578, 1, 577), (583, 591, 2, 582), (592, 592, 1, 11375),
      (593, 593, 1, 11373), (594, 594, 1, 11376), (595, 595, 1, 385), (596, 596, 1, 390),
      (598, 599, 1, 393), (601, 601, 1, 399), (603, 603, 1, 400), (604, 604, 1, 42923),
      (608, 608, 1, 403), (609, 609, 1, 42924), (611, 611, 1, 404), (613, 613, 1, 42893),
      (614, 614, 1, 42922), (616, 616, 1, 407), (617, 617, 1, 406), (618, 618, 1, 42926),
      (619, 619, 1, 11362), (620, 620, 1, 42925), (623, 623, 1, 412), (625, 625, 1, 11374),
      (626, 626, 1, 413), (629, 629, 1, 415), (637, 637, 1, 11364), (640, 640, 1, 422),
      (642, 642, 1, 42949), (643, 643, 1, 425), (647, 647, 1, 42929), (648, 648, 1, 430),
      (649, 649, 1, 580), (650, 651, 1, 433), (652, 652, 1, 581), (658, 658, 1, 439),
      (669, 669, 1, 42930), (670, 670, 1, 42928), (837, 837, 1, 921), (881, 883, 2, 880),
      (887, 887, 1, 886), (891, 893, 1, 1021), (940, 940, 1, 902), (941, 943, 1, 904),
      (945, 961, 1, 913), (962, 962, 1, 931), (963, 971, 1, 931), (972, 972, 1, 908),
      (973, 974, 1, 910), (976, 976, 1, 914), (977, 977, 1, 920), (981, 981, 1, 934),
      (982, 982, 1, 928), (983, 983, 1, 975), (985, 1007, 2, 984), (1008, 1008, 1, 922),
      (1009, 1009, 1, 929), (1010, 1010, 1, 1017), (1011, 1011, 1, 895), (1013, 1013, 1, 917),
      (1016, 1016, 1, 1015), (1019, 1019, 1, 1018), (1072, 1103, 1, 1040),
      (1104, 1119, 1, 1024), (1121, 1153, 2, 1120), (1163, 1215, 2, 1162),
      (1218, 1230, 2, 1217), (1231, 1231, 1, 1216), (1233, 1327, 2, 1232),
      (1377, 1414, 1, 1329), (4304, 4346, 1, 7312), (4349, 4351, 1, 7357),
      (5112, 5117, 1, 5104), (7296, 7296, 1, 1042), (7297, 7297, 1, 1044),
      (7298, 7298, 1, 1054), (7299, 7300, 1, 1057), (7301, 7301, 1, 1058),
      (7302, 7302, 1, 1066), (7303, 7303, 1, 1122), (7304, 7304, 1, 42570),
      (7545, 7545, 1, 42877), (7549, 7549, 1, 11363), (7566, 7566, 1, 42950),
      (7681, 7829, 2, 7680), (7835, 7835, 1, 7776), (7841, 7935, 2, 7840),
      (7936, 7943, 1, 7944), (7952, 7957, 1, 7960), (7968, 7975, 1, 7976),
      (7984, 7991, 1, 7992), (8000, 8005, 1, 8008), (8017, 8023, 2, 8025),
      (8032, 8039, 1, 8040), (8048, 8049, 1, 8122), (8050, 8053, 1, 8136),
      (8054, 8055, 1, 8154), (8056, 8057, 1, 8184), (8058, 8059, 1, 8170),
      (8060, 8061, 1, 8186), (8112, 8113, 1, 8120), (8126, 8126, 1, 921), (8144, 8145, 1, 8152),
      (8160, 8161, 1, 8168), (8165, 8165, 1, 8172), (8526, 8526, 1, 8498),
      (8560, 8575, 1, 8544), (8580, 8580, 1, 8579), (9424, 9449, 1, 9398),
      (11312, 11359, 1, 11264), (11361, 11361, 1, 11360), (11365, 11365, 1, 570),
      (11366, 11366, 1, 574), (11368, 11372, 2, 11367), (11379, 11379, 1, 11378),
      (11382, 11382, 1, 11381), (11393, 11491, 2, 11392), (11500, 11502, 2, 11499),
      (11507, 11507, 1, 11506), (11520, 11557, 1, 4256), (11559, 11559, 1, 4295),
      (11565, 11565, 1, 4301), (42561, 42605, 2, 42560), (42625, 42651, 2, 42624),
      (42787, 42799, 2, 42786), (42803, 42863, 2, 42802), (42874, 42876, 2, 42873),
      (42879, 42887, 2, 42878), (42892, 42892, 1, 42891), (42897, 42899, 2, 42896),
      (42900, 42900, 1, 42948), (42903, 42921, 2, 42902), (42933, 42947, 2, 42932),
      (42952, 42954, 2, 42951), (42961, 42961, 1, 42960), (42967, 42969, 2, 42966),
      (42998, 42998, 1, 42997), (43859, 43859, 1, 42931), (43888, 43967, 1, 5024),
      (65345, 65370, 1, 65313), (66600, 66639, 1, 66560), (66776, 66811, 1, 66736),
      (66967, 66977, 1, 66928), (66979, 66993, 1, 66940), (66995, 67001, 1, 66956),
      (67003, 67004, 1, 66964), (68800, 68850, 1, 68736), (71872, 71903, 1, 71840),
      (93792, 93823, 1, 93760), (125218, 125251, 1, 125184)]"

definition toupper_special :: "(nat \<times> nat list) list" where
  "toupper_special =
     [(223, [83, 83]), (329, [700, 78]), (496, [74, 780]), (912, [921, 776, 769]),
      (944, [933, 776, 769]), (1415, [1333, 1362]), (7830, [72, 817]), (7831, [84, 776]),
      (7832, [87, 778]), (7833, [89, 778]), (7834, [65, 702]), (8016, [933, 787]),
      (8018, [933, 787, 768]), (8020, [933, 787, 769]), (8022, [933, 787, 834]),
      (8064, [7944, 921]), (8065, [7945, 921]), (8066, [7946, 921]), (8067, [7947, 921]),
      (8068, [7948, 921]), (8069, [7949, 921]), (8070, [7950, 921]), (8071, [7951, 921]),
      (8072, [7944, 921]), (8073, [7945, 921]), (8074, [7946, 921]), (8075, [7947, 921]),
      (8076, [7948, 921]), (8077, [7949, 921]), (8078, [7950, 921]), (8079, [7951, 921]),
      (8080, [7976, 921]), (8081, [7977, 921]), (8082, [7978, 921]), (8083, [7979, 921]),
      (8084, [7980, 921]), (8085, [7981, 921]), (8086, [7982, 921]), (8087, [7983, 921]),
      (8088, [7976, 921]), (8089, [7977, 921]), (8090, [7978, 921]), (8091, [7979, 921]),
      (8092, [7980, 921]), (8093, [7981, 921]), (8094, [7982, 921]), (8095, [7983, 921]),
      (8096, [8040, 921]), (8097, [8041, 921]), (8098, [8042, 921]), (8099, [8043, 921]),
      (8100, [8044, 921]), (8101, [8045, 921]), (8102, [8046, 921]), (8103, [8047, 921]),
      (8104, [8040, 921]), (8105, [8041, 921]), (8106, [8042, 921]), (8107, [8043, 921]),
      (8108, [8044, 921]), (8109, [8045, 921]), (8110, [8046, 921]), (8111, [8047, 921]),
      (8114, [8122, 921]), (8115, [913, 921]), (8116, [902, 921]), (8118, [913, 834]),
      (8119, [913, 834, 921]), (8124, [913, 921]), (8130, [8138, 921]), (8131, [919, 921]),
      (8132, [905, 921]), (8134, [919, 834]), (8135, [919, 834, 921]), (8140, [919, 921]),
      (8146, [921, 776, 768]), (8147, [921, 776, 769]), (8150, [921, 834]),
      (8151, [921, 776, 834]), (8162, [933, 776, 768]), (8163, [933, 776, 769]),
      (8164, [929, 787]), (8166, [933, 834]), (8167, [933, 776, 834]), (8178, [8186, 921]),
      (8179, [937, 921]), (8180, [911, 921]), (8182, [937, 834]), (8183, [937, 834, 921]),
      (8188, [937, 921]), (64256, [70, 70]), (64257, [70, 73]), (64258, [70, 76]),
      (64259, [70, 70, 73]), (64260, [70, 70, 76]), (64261, [83, 84]), (64262, [83, 84]),
      (64275, [1348, 1350]), (64276, [1348, 1333]), (64277, [1348, 1339]),
      (64278, [1358, 1350]), (64279, [1348, 1341])]"

definition upper_char :: "nat \<Rightarrow> nat list" where
  "upper_char c =
     (if c < 128 then [if ascii_lower c then c - 32 else c]
      else case entry_of toupper_special c of
             [] \<Rightarrow> [range_image toupper_table c]
           | cs \<Rightarrow> cs)"

definition upper :: "ustr \<Rightarrow> ustr" where
  "upper s = concat (map upper_char s)"

section \<open>Pattern text: \<open>endpoint_to_regex\<close> up to \<open>re.compile\<close>\<close>

text \<open>
  \<open>re.escape\<close> as the interpreter the application runs on defines it (Python 3.7 and
  later; the application needs Streamlit and f-strings): a backslash is put before each of
  the characters \<open>()[]{}?*+-|^$\.&~#\<close>, space, tab, newline, carriage return, vertical tab
  and form feed, and before no other character. In particular neither \<open>/\<close> nor \<open>:\<close> is
  escaped.
\<close>

definition special_chars :: "nat list" where
  "special_chars = str_of ''()[]{}?*+-|^$'' @ [92] @ str_of ''.&~# '' @ [9, 10, 13, 11, 12]"

definition re_escape :: "ustr \<Rightarrow> ustr" where
  "re_escape s = concat (map (\<lambda>c. if c \<in> set special_chars then [92, c] else [c]) s)"

text \<open>The replacement text \<open>[^/]+\<close> of both substitutions.\<close>

definition wildcard :: ustr where
  "wildcard = str_of ''[^/]+''"

text \<open>
  \<open>re.sub(r"\\:([a-zA-Z_][a-zA-Z0-9_]*)", r"[^/]+", pattern)\<close>: scanning from the left,
  every backslash followed by a colon, an identifier start and the longest run of
  identifier characters is replaced; the scan goes on behind the replaced text.
\<close>

function sub_colon_param :: "ustr \<Rightarrow> ustr" where
  "sub_colon_param (a # b # c # rest) =
     (if a = 92 \<and> b = 58 \<and> ident_start c
      then wildcard @ sub_colon_param (dropWhile ident_char rest)
      else a # sub_colon_param (b # c # rest))"
| "sub_colon_param [a, b] = [a, b]"
| "sub_colon_param [a] = [a]"
| "sub_colon_param [] = []"
  by pat_completeness auto
termination
  by (relation "measure length") (auto simp: less_Suc_eq_le le_SucI length_dropWhile_le)

text \<open>
  \<open>re.sub(r"\\{[a-zA-Z_][a-zA-Z0-9_]*\\}", r"[^/]+", pattern)\<close>: a backslash, an opening
  brace, an identifier, a backslash and a closing brace. The identifier characters exclude
  the backslash, so the greedy run is the only candidate.
\<close>

function sub_brace_param :: "ustr \<Rightarrow> ustr" where
  "sub_brace_param (a # b # c # rest) =
     (if a = 92 \<and> b = 123 \<and> ident_start c
      then (case dropWhile ident_char rest of
              d # e # rest' \<Rightarrow>
                if d = 92 \<and> e = 125 then wildcard @ sub_brace_param rest'
                else a # sub_brace_param (b # c # rest)
            | _ \<Rightarrow> a # sub_brace_param (b # c # rest))
      else a # sub_brace_param (b # c # rest))"
| "sub_brace_param [a, b] = [a, b]"
| "sub_brace_param [a] = [a]"
| "sub_brace_param [] = []"
  by pat_completeness auto
termination
  apply (relation "measure length")
     apply simp_all
  subgoal for c rest rest'
    using length_dropWhile_le [of ident_char rest] by simp
  done

text \<open>\<open>pattern.rstrip("/")\<close>\<close>

definition rstrip_slash :: "ustr \<Rightarrow> ustr" where
  "rstrip_slash s = rev (dropWhile (\<lambda>c. c = 47) (rev s))"

text \<open>
  The appended raw string of eleven characters: \<open>/\<close>, \<open>?\<close>, \<open>(\<close>, two backslashes, \<open>?\<close>,
  \<open>.\<close>, \<open>*\<close>, \<open>)\<close>, \<open>?\<close>, \<open>$\<close>. To the pattern compiler the two backslashes are one
  literal backslash, so the group reads: an optional backslash, then any run of characters
  other than a newline.
\<close>

definition tail_text :: ustr where
  "tail_text = str_of ''/?('' @ [92, 92] @ str_of ''?.*)?$''"

definition pattern_text :: "ustr \<Rightarrow> ustr" where
  "pattern_text endpoint =
     rstrip_slash (sub_brace_param (sub_colon_param (re_escape endpoint))) @ tail_text"

section \<open>The pattern engine: \<open>re.compile\<close> and \<open>search\<close>\<close>

text \<open>
  The pattern syntax is modelled on the fragment that \<open>pattern_text\<close> can produce:
  literal characters, a backslash before a character that is no ASCII letter or digit,
  negated character sets of plain characters of the basic plane, the dot, groups, the
  quantifiers \<open>?\<close>,
  \<open>+\<close> and \<open>*\<close>, and the anchors \<open>^\<close> and \<open>$\<close>. Anything else (alternation, counted
  repetition, class escapes, \<open>(?\<close> groups, lazy quantifiers, \<open>+\<close> or \<open>*\<close> on a group) is
  outside the fragment and gives \<open>None\<close>, as does text that Python rejects.
\<close>

datatype token =
  TChar nat | TAny | TNotSet "nat list" | TOpen | TClose | TQuest | TPlus | TStar | TBol | TEol

definition plain_set_char :: "nat \<Rightarrow> bool" where
  "plain_set_char c =
     (c \<noteq> 92 \<and> c \<noteq> 93 \<and> c \<noteq> 91 \<and> c \<noteq> 45 \<and> c \<noteq> 94 \<and> c < 65536)"

function lex :: "ustr \<Rightarrow> token list option" where
  "lex [] = Some []"
| "lex (c # cs) =
     (if c = 92 then
        (case cs of
           [] \<Rightarrow> None
         | d # ds \<Rightarrow>
             if ascii_lower d \<or> ascii_upper d \<or> ascii_digit d then None
             else map_option (Cons (TChar d)) (lex ds))
      else if c = 91 then
        (case cs of
           [] \<Rightarrow> None
         | d # ds \<Rightarrow>
             if d \<noteq> 94 \<or> takeWhile plain_set_char ds = [] then None
             else (case dropWhile plain_set_char ds of
                     [] \<Rightarrow> None
                   | e # es \<Rightarrow>
                       if e = 93
                       then map_option (Cons (TNotSet (takeWhile plain_set_char ds))) (lex es)
                       else None))
      else if c = 40 then
        (case cs of
           [] \<Rightarrow> None
         | d # ds \<Rightarrow> if d = 63 then None else map_option (Cons TOpen) (lex cs))
      else if c = 124 \<or> c = 123 then None
      else map_option
             (Cons (if c = 46 then TAny else if c = 41 then TClose else if c = 63 then TQuest
                    else if c = 43 then TPlus else if c = 42 then TStar
                    else if c = 94 then TBol else if c = 36 then TEol else TChar c))
             (lex cs))"
  by pat_completeness auto
termination
  apply (relation "measure length")
      apply simp_all
  subgoal for c cs ds e es
    using length_dropWhile_le [of plain_set_char ds] by simp
  done

datatype atom = Chr nat | AnyChar | NotSet "nat list"

datatype regex =
  Eps | Atom atom | Bol | Eol | Star atom | Plus atom | Opt regex | Grp regex | Seq regex regex

fun seq_of :: "regex list \<Rightarrow> regex" where
  "seq_of [] = Eps"
| "seq_of (r # rs) = Seq r (seq_of rs)"

text \<open>
  The parser keeps the items of the sequence being read (latest first) and a stack of the
  sequences that enclosing groups have open.
\<close>

fun parse :: "token list \<Rightarrow> regex list \<Rightarrow> regex list list \<Rightarrow> regex option" where
  "parse [] cur stk = (if stk = [] then Some (seq_of (rev cur)) else None)"
| "parse (TChar c # ts) cur stk = parse ts (Atom (Chr c) # cur) stk"
| "parse (TAny # ts) cur stk = parse ts (Atom AnyChar # cur) stk"
| "parse (TNotSet cs # ts) cur stk = parse ts (Atom (NotSet cs) # cur) stk"
| "parse (TBol # ts) cur stk = parse ts (Bol # cur) stk"
| "parse (TEol # ts) cur stk = parse ts (Eol # cur) stk"
| "parse (TOpen # ts) cur stk = parse ts [] (cur # stk)"
| "parse (TClose # ts) cur stk =
     (case stk of [] \<Rightarrow> None | up # stk' \<Rightarrow> parse ts (Grp (seq_of (rev cur)) # up) stk')"
| "parse (TQuest # ts) cur stk =
     (case cur of
        Atom a # cur' \<Rightarrow> parse ts (Opt (Atom a) # cur') stk
      | Grp r # cur' \<Rightarrow> parse ts (Opt (Grp r) # cur') stk
      | _ \<Rightarrow> None)"
| "parse (TPlus # ts) cur stk =
     (case cur of Atom a # cur' \<Rightarrow> parse ts (Plus a # cur') stk | _ \<Rightarrow> None)"
| "parse (TStar # ts) cur stk =
     (case cur of Atom a # cur' \<Rightarrow> parse ts (Star a # cur') stk | _ \<Rightarrow> None)"

definition re_compile :: "ustr \<Rightarrow> regex option" where
  "re_compile p = (case lex p of None \<Rightarrow> None | Some ts \<Rightarrow> parse ts [] [])"

text \<open>
  \<open>re.IGNORECASE\<close> on a \<open>str\<close> pattern. A pattern character that is not cased matches
  itself only. A cased one matches every character whose lower-case image is the pattern
  character's lower-case image or one of its extra cases. A set is tested on the lower-case
  image of the character when one of its members is cased, and on the character itself
  otherwise; the set holds the lower-case images of its members and their extra cases.
\<close>

definition folded :: "nat \<Rightarrow> nat list" where
  "folded p = unicode_tolower p # extra_cases (unicode_tolower p)"

fun atom_ok :: "atom \<Rightarrow> nat \<Rightarrow> bool" where
  "atom_ok (Chr p) c =
     (if unicode_iscased p then unicode_tolower c \<in> set (folded p) else c = p)"
| "atom_ok AnyChar c = (c \<noteq> 10)"
| "atom_ok (NotSet cs) c =
     ((if list_ex unicode_iscased cs then unicode_tolower c else c)
        \<notin> set (concat (map folded cs)))"

text \<open>What is left of the text after zero or more characters that the atom accepts.\<close>

fun run :: "atom \<Rightarrow> ustr \<Rightarrow> ustr list" where
  "run a [] = [[]]"
| "run a (c # cs) = (c # cs) # (if atom_ok a c then run a cs else [])"

text \<open>
  \<open>ends r (b, s)\<close> lists every way \<open>r\<close> can match a prefix of the remaining text \<open>s\<close>:
  the text left behind the match, with the flag that tells whether the position is still
  the start of the line. Without \<open>re.MULTILINE\<close> the anchor \<open>^\<close> holds at the start only
  and \<open>$\<close> holds at the end and before a line's final newline; without \<open>re.DOTALL\<close> the
  dot accepts everything but the newline.
\<close>

fun ends :: "regex \<Rightarrow> bool \<times> ustr \<Rightarrow> (bool \<times> ustr) list" where
  "ends Eps st = [st]"
| "ends (Atom a) (b, s) =
     (case s of [] \<Rightarrow> [] | c # cs \<Rightarrow> if atom_ok a c then [(False, cs)] else [])"
| "ends Bol (b, s) = (if b then [(b, s)] else [])"
| "ends Eol (b, s) = (if s = [] \<or> s = [10] then [(b, s)] else [])"
| "ends (Plus a) (b, s) =
     (case s of [] \<Rightarrow> [] | c # cs \<Rightarrow> if atom_ok a c then map (Pair False) (run a cs) else [])"
| "ends (Star a) (b, s) =
     (b, s) # (case s of [] \<Rightarrow> []
               | c # cs \<Rightarrow> if atom_ok a c then map (Pair False) (run a cs) else [])"
| "ends (Opt r) st = st # ends r st"
| "ends (Grp r) st = ends r st"
| "ends (Seq r1 r2) st = concat (map (ends r2) (ends r1 st))"

text \<open>\<open>pattern.search(line)\<close> as a truth value: a match may start at any position.\<close>

fun search_from :: "regex \<Rightarrow> bool \<Rightarrow> ustr \<Rightarrow> bool" where
  "search_from r b [] = (ends r (b, []) \<noteq> [])"
| "search_from r b (c # cs) = (ends r (b, c # cs) \<noteq> [] \<or> search_from r False cs)"

definition search :: "regex \<Rightarrow> ustr \<Rightarrow> bool" where
  "search r line = search_from r True line"

definition endpoint_to_regex :: "ustr \<Rightarrow> regex option" where
  "endpoint_to_regex endpoint = re_compile (pattern_text endpoint)"

text \<open>
  The truth value of \<open>endpoint_to_regex(endpoint).search(line)\<close>; \<open>None\<close> when the pattern
  text does not compile.
\<close>

definition endpoint_matches :: "ustr \<Rightarrow> ustr \<Rightarrow> bool option" where
  "endpoint_matches endpoint line = map_option (\<lambda>r. search r line) (endpoint_to_regex endpoint)"

section \<open>Spec Loader: \<open>load_endpoints\<close>\<close>

type_synonym byte = "8 word"

text \<open>
  What \<open>json.load\<close> and \<open>yaml.safe_load\<close> return. A dictionary is the list of its items
  in insertion order; its keys are values too (a YAML mapping may have keys that are no
  strings). \<open>POther\<close> stands for any other value (a floating-point number, a date, a set),
  given by its printed text: such a value has none of the attributes \<open>get\<close>, \<open>items\<close>,
  \<open>keys\<close> and \<open>upper\<close>. Values are compared by their structure; the keys \<open>1\<close>, \<open>1.0\<close> and
  \<open>True\<close>, which Python takes for equal, cannot be keys of one dictionary.
\<close>

datatype pyval =
  PNone | PBool bool | PInt int | PStr ustr | PBytes "byte list" | PList "pyval list"
| PDict "(pyval \<times> pyval) list" | POther ustr

text \<open>
  A descriptor is a pair \<open>(path, method)\<close>. The plain-text loader gives two strings; the
  structured loaders give a key of the \<open>paths\<close> dictionary and the upper-case form of a key
  of its value.
\<close>

type_synonym descriptor = "pyval \<times> pyval"

text \<open>
  The exceptions that leave the functions below: the one a document parser raises, with
  its cause; \<open>AttributeError\<close>; \<open>UnicodeDecodeError\<close>; \<open>TypeError\<close>; and \<open>re.error\<close>.
\<close>

datatype error =
  ParseError ustr | AttributeError | UnicodeDecodeError | TypeError | PatternError

text \<open>The uploaded file: its \<open>name\<close> and its bytes.\<close>

record upload =
  name :: ustr
  content :: "byte list"

definition endswith :: "ustr \<Rightarrow> ustr \<Rightarrow> bool" where
  "endswith s suffix =
     (length suffix \<le> length s \<and> drop (length s - length suffix) s = suffix)"

text \<open>
  \<open>method.upper()\<close>: a string has the method \<open>str.upper\<close>, a byte string has \<open>bytes.upper\<close>,
  which changes the ASCII letters only; no other value has the attribute.
\<close>

definition bytes_upper :: "byte list \<Rightarrow> byte list" where
  "bytes_upper bs = map (\<lambda>b. if 97 \<le> unat b \<and> unat b \<le> 122 then b - 32 else b) bs"

definition method_upper :: "pyval \<Rightarrow> error + pyval" where
  "method_upper method =
     (case method of
        PStr s \<Rightarrow> Inr (PStr (upper s))
      | PBytes bs \<Rightarrow> Inr (PBytes (bytes_upper bs))
      | _ \<Rightarrow> Inl AttributeError)"

text \<open>
  The inner loop \<open>for method in methods.keys()\<close> and the outer loop over
  \<open>spec.get("paths", {}).items()\<close>, with the list \<open>endpoints\<close> as accumulator. Only a
  dictionary has the attributes \<open>get\<close>, \<open>items\<close> and \<open>keys\<close>.
\<close>

fun collect_methods :: "pyval \<Rightarrow> pyval list \<Rightarrow> descriptor list \<Rightarrow> error + descriptor list" where
  "collect_methods path [] endpoints = Inr endpoints"
| "collect_methods path (method # rest) endpoints =
     (case method_upper method of
        Inl e \<Rightarrow> Inl e
      | Inr m \<Rightarrow> collect_methods path rest (endpoints @ [(path, m)]))"

fun collect_paths :: "(pyval \<times> pyval) list \<Rightarrow> descriptor list \<Rightarrow> error + descriptor list" where
  "collect_paths [] endpoints = Inr endpoints"
| "collect_paths ((path, methods) # rest) endpoints =
     (case methods of
        PDict ms \<Rightarrow>
          (case collect_methods path (map fst ms) endpoints of
             Inl e \<Rightarrow> Inl e
           | Inr endpoints' \<Rightarrow> collect_paths rest endpoints')
      | _ \<Rightarrow> Inl AttributeError)"

definition spec_endpoints :: "pyval \<Rightarrow> error + descriptor list" where
  "spec_endpoints spec =
     (case spec of
        PDict entries \<Rightarrow>
          (case (case map_of entries (PStr (str_of ''paths'')) of
                   None \<Rightarrow> PDict []
                 | Some v \<Rightarrow> v) of
             PDict paths \<Rightarrow> collect_paths paths []
           | _ \<Rightarrow> Inl AttributeError)
      | _ \<Rightarrow> Inl AttributeError)"

text \<open>\<open>bytes.decode("utf-8")\<close>: strict decoding of well-formed UTF-8.\<close>

definition cont :: "byte \<Rightarrow> bool" where
  "cont b = (128 \<le> unat b \<and> unat b \<le> 191)"

fun utf8_decode :: "byte list \<Rightarrow> ustr option" where
  "utf8_decode [] = Some []"
| "utf8_decode (b # bs) =
     (if unat b < 128 then map_option (Cons (unat b)) (utf8_decode bs)
      else if 194 \<le> unat b \<and> unat b \<le> 223 then
        (case bs of
           b1 # r \<Rightarrow>
             if cont b1
             then map_option (Cons ((unat b - 192) * 64 + (unat b1 - 128))) (utf8_decode r)
             else None
         | _ \<Rightarrow> None)
      else if 224 \<le> unat b \<and> unat b \<le> 239 then
        (case bs of
           b1 # b2 # r \<Rightarrow>
             if (if unat b = 224 then 160 else 128) \<le> unat b1
                \<and> unat b1 \<le> (if unat b = 237 then 159 else 191) \<and> cont b2
             then map_option
                    (Cons ((unat b - 224) * 4096 + (unat b1 - 128) * 64 + (unat b2 - 128)))
                    (utf8_decode r)
             else None
         | _ \<Rightarrow> None)
      else if 240 \<le> unat b \<and> unat b \<le> 244 then
        (case bs of
           b1 # b2 # b3 # r \<Rightarrow>
             if (if unat b = 240 then 144 else 128) \<le> unat b1
                \<and> unat b1 \<le> (if unat b = 244 then 143 else 191) \<and> cont b2 \<and> cont b3
             then map_option
                    (Cons ((unat b - 240) * 262144 + (unat b1 - 128) * 4096
                           + (unat b2 - 128) * 64 + (unat b3 - 128)))
                    (utf8_decode r)
             else None
         | _ \<Rightarrow> None)
      else None)"

text \<open>
  \<open>str.splitlines()\<close>: a line ends at \<open>\n\<close>, \<open>\r\<close>, \<open>\r\n\<close>, \<open>\v\<close>, \<open>\f\<close>, the separators
  \<open>\x1c\<close>, \<open>\x1d\<close>, \<open>\x1e\<close>, NEL \<open>\x85\<close>, and the line and paragraph separators
  U+2028 and U+2029; the line ends are not kept, and text that ends with one has no empty
  last line.
\<close>

definition line_boundary :: "nat \<Rightarrow> bool" where
  "line_boundary c = (c \<in> {10, 11, 12, 13, 28, 29, 30, 133, 8232, 8233})"

fun splitlines_from :: "ustr \<Rightarrow> ustr \<Rightarrow> ustr list" where
  "splitlines_from cur [] = (if cur = [] then [] else [cur])"
| "splitlines_from cur (c # cs) =
     (if c = 13 then
        (case cs of
           [] \<Rightarrow> [cur]
         | d # ds \<Rightarrow> if d = 10 then cur # splitlines_from [] ds else cur # splitlines_from [] cs)
      else if line_boundary c then cur # splitlines_from [] cs
      else splitlines_from (cur @ [c]) cs)"

definition splitlines :: "ustr \<Rightarrow> ustr list" where
  "splitlines s = splitlines_from [] s"

text \<open>\<open>str.strip()\<close> removes the code points that \<open>str.isspace\<close> accepts from both ends.\<close>

definition whitespace :: "nat \<Rightarrow> bool" where
  "whitespace c =
     ((9 \<le> c \<and> c \<le> 13) \<or> (28 \<le> c \<and> c \<le> 32) \<or> c = 133 \<or> c = 160 \<or> c = 5760
      \<or> (8192 \<le> c \<and> c \<le> 8202) \<or> c = 8232 \<or> c = 8233 \<or> c = 8239 \<or> c = 8287
      \<or> c = 12288)"

definition strip :: "ustr \<Rightarrow> ustr" where
  "strip s = dropWhile whitespace (rev (dropWhile whitespace (rev s)))"

text \<open>
  \<open>load_endpoints\<close>. The two document parsers are libraries outside the repository; they
  are parameters that either reject the bytes with a cause or return the parsed value. Their
  exception is not caught, so it leaves \<open>load_endpoints\<close> as it is.
\<close>

definition load_endpoints ::
  "(byte list \<Rightarrow> ustr + pyval) \<Rightarrow> (byte list \<Rightarrow> ustr + pyval) \<Rightarrow> upload
     \<Rightarrow> error + descriptor list" where
  "load_endpoints json_load yaml_safe_load endpoint_file =
     (if endswith (name endpoint_file) (str_of ''.json'') then
        (case json_load (content endpoint_file) of
           Inl cause \<Rightarrow> Inl (ParseError cause)
         | Inr spec \<Rightarrow> spec_endpoints spec)
      else if endswith (name endpoint_file) (str_of ''.yaml'')
              \<or> endswith (name endpoint_file) (str_of ''.yml'') then
        (case yaml_safe_load (content endpoint_file) of
           Inl cause \<Rightarrow> Inl (ParseError cause)
         | Inr spec \<Rightarrow> spec_endpoints spec)
      else
        (case utf8_decode (content endpoint_file) of
           None \<Rightarrow> Inl UnicodeDecodeError
         | Some text \<Rightarrow>
             Inr [(PStr (strip line), PStr []). line \<leftarrow> splitlines text, strip line \<noteq> []]))"

section \<open>Tree Scanner: \<open>find_endpoints_in_code\<close>\<close>

text \<open>An occurrence is \<open>(file_path, i, project_name)\<close>.\<close>

type_synonym occurrence = "ustr \<times> nat \<times> ustr"

text \<open>
  The dictionaries \<open>used\<close> and \<open>used_map\<close>: the list of items in insertion order;
  \<open>AList.update\<close> replaces the value of a key in place and puts a new key last.
\<close>

type_synonym match_map = "(descriptor \<times> occurrence list) list"

text \<open>
  The body of the innermost \<open>if\<close>: \<open>used[(ep, method)] = []\<close> for a key that is not in
  \<open>used\<close>, then \<open>used[(ep, method)].append(...)\<close>.
\<close>

definition record_match :: "descriptor \<Rightarrow> occurrence \<Rightarrow> match_map \<Rightarrow> match_map" where
  "record_match key occ used =
     (let used' = (if map_of used key = None then AList.update key [] used else used)
      in case map_of used' key of
           None \<Rightarrow> used'
         | Some occs \<Rightarrow> AList.update key (occs @ [occ]) used')"

text \<open>\<open>for (ep, method), pattern in endpoint_patterns\<close>, on one line of one file.\<close>

fun scan_line :: "(descriptor \<times> regex) list \<Rightarrow> ustr \<Rightarrow> occurrence \<Rightarrow> match_map \<Rightarrow> match_map" where
  "scan_line [] line occ used = used"
| "scan_line ((key, pattern) # rest) line occ used =
     scan_line rest line occ (if search pattern line then record_match key occ used else used)"

text \<open>\<open>for i, line in enumerate(f, start=1)\<close>\<close>

fun scan_lines ::
  "(descriptor \<times> regex) list \<Rightarrow> ustr \<Rightarrow> ustr \<Rightarrow> nat \<Rightarrow> ustr list \<Rightarrow> match_map \<Rightarrow> match_map" where
  "scan_lines patterns file_path project_name i [] used = used"
| "scan_lines patterns file_path project_name i (line # rest) used =
     scan_lines patterns file_path project_name (Suc i) rest
       (scan_line patterns line (file_path, i, project_name) used)"

text \<open>
  What opening and reading a file gives: all its lines, or the lines read before an
  exception and the exception's text. A project is the value of
  \<open>os.path.basename(os.path.abspath(project_dir))\<close> and what \<open>os.walk(project_dir)\<close> yields:
  for each directory its path and its files, here with what reading each file gives.
\<close>

datatype file_read = Lines "ustr list" | Failure "ustr list" ustr

record project =
  project_name :: ustr
  walk :: "(ustr \<times> (ustr \<times> file_read) list) list"

definition source_file :: "ustr \<Rightarrow> bool" where
  "source_file file =
     (endswith file (str_of ''.js'') \<or> endswith file (str_of ''.jsx'')
      \<or> endswith file (str_of ''.ts'') \<or> endswith file (str_of ''.tsx'')
      \<or> endswith file (str_of ''.vue'') \<or> endswith file (str_of ''.dart''))"

text \<open>\<open>os.path.join(root, file)\<close> on a POSIX system.\<close>

definition path_join :: "ustr \<Rightarrow> ustr \<Rightarrow> ustr" where
  "path_join root file =
     (if file \<noteq> [] \<and> hd file = 47 then file
      else if root = [] \<or> last root = 47 then root @ file
      else root @ [47] @ file)"

text \<open>The files that the two outer loops open, in order, each with its \<open>file_path\<close>.\<close>

definition opened_files :: "project \<Rightarrow> (ustr \<times> file_read) list" where
  "opened_files p =
     [(path_join root file, r). (root, files) \<leftarrow> walk p, (file, r) \<leftarrow> files, source_file file]"

text \<open>The warning text \<open>Could not read {file_path}: {e}\<close>, without its leading sign.\<close>

definition warning_text :: "ustr \<Rightarrow> ustr \<Rightarrow> ustr" where
  "warning_text file_path e = str_of ''Could not read '' @ file_path @ str_of '': '' @ e"

fun scan_files ::
  "(descriptor \<times> regex) list \<Rightarrow> ustr \<Rightarrow> (ustr \<times> file_read) list \<Rightarrow> match_map \<times> ustr list
     \<Rightarrow> match_map \<times> ustr list" where
  "scan_files patterns pn [] st = st"
| "scan_files patterns pn ((file_path, Lines ls) # rest) (used, warnings) =
     scan_files patterns pn rest (scan_lines patterns file_path pn 1 ls used, warnings)"
| "scan_files patterns pn ((file_path, Failure ls e) # rest) (used, warnings) =
     scan_files patterns pn rest
       (scan_lines patterns file_path pn 1 ls used, warnings @ [warning_text file_path e])"

text \<open>
  \<open>endpoint_patterns\<close>: every endpoint with its compiled pattern, made before any file is
  opened. \<open>re.escape\<close> and \<open>re.sub\<close> raise \<open>TypeError\<close> on a path that is no string.
\<close>

fun endpoint_patterns :: "descriptor list \<Rightarrow> error + (descriptor \<times> regex) list" where
  "endpoint_patterns [] = Inr []"
| "endpoint_patterns ((ep, method) # rest) =
     (case ep of
        PStr s \<Rightarrow>
          (case endpoint_to_regex s of
             None \<Rightarrow> Inl PatternError
           | Some pattern \<Rightarrow>
               (case endpoint_patterns rest of
                  Inl e \<Rightarrow> Inl e
                | Inr patterns \<Rightarrow> Inr (((ep, method), pattern) # patterns)))
      | _ \<Rightarrow> Inl TypeError)"

text \<open>The result is \<open>used\<close> and the warnings shown on the way.\<close>

definition find_endpoints_in_code ::
  "project \<Rightarrow> descriptor list \<Rightarrow> error + match_map \<times> ustr list" where
  "find_endpoints_in_code p endpoints =
     (case endpoint_patterns endpoints of
        Inl e \<Rightarrow> Inl e
      | Inr patterns \<Rightarrow> Inr (scan_files patterns (project_name p) (opened_files p) ([], [])))"

section \<open>Aggregator: the merge loop of the main script\<close>

text \<open>
  The body of the inner merge loop: \<open>used_map[key] = []\<close> for a key that is not in
  \<open>used_map\<close>, then \<open>used_map[key].extend(val)\<close>.
\<close>

definition extend_entry :: "descriptor \<Rightarrow> occurrence list \<Rightarrow> match_map \<Rightarrow> match_map" where
  "extend_entry key val used_map =
     (let used_map' = (if map_of used_map key = None then AList.update key [] used_map
                       else used_map)
      in case map_of used_map' key of
           None \<Rightarrow> used_map'
         | Some occs \<Rightarrow> AList.update key (occs @ val) used_map')"

text \<open>\<open>for key, val in partial_used.items()\<close>\<close>

fun merge_items :: "match_map \<Rightarrow> match_map \<Rightarrow> match_map" where
  "merge_items [] used_map = used_map"
| "merge_items ((key, val) # rest) used_map = merge_items rest (extend_entry key val used_map)"

text \<open>The merge of a sequence of per-project results, in order, into \<open>used_map\<close>.\<close>

fun merge_all :: "match_map list \<Rightarrow> match_map \<Rightarrow> match_map" where
  "merge_all [] used_map = used_map"
| "merge_all (partial_used # rest) used_map = merge_all rest (merge_items partial_used used_map)"

text \<open>\<open>for pdir in project_dirs\<close>: scan the project, then merge its result.\<close>

fun scan_projects ::
  "project list \<Rightarrow> descriptor list \<Rightarrow> match_map \<times> ustr list \<Rightarrow> error + match_map \<times> ustr list" where
  "scan_projects [] endpoints st = Inr st"
| "scan_projects (p # rest) endpoints (used_map, warnings) =
     (case find_endpoints_in_code p endpoints of
        Inl e \<Rightarrow> Inl e
      | Inr (partial_used, ws) \<Rightarrow>
          scan_projects rest endpoints (merge_items partial_used used_map, warnings @ ws))"

section \<open>Report Builder: \<open>export_to_csv\<close>\<close>






section \<open>Occurrence lists: what a scan records\<close>

text \<open>The occurrence list of a key in a match map; the empty list for a key that is absent.\<close>

definition occs_of :: "match_map \<Rightarrow> descriptor \<Rightarrow> occurrence list" where
  "occs_of m k = (case map_of m k of None \<Rightarrow> [] | Some occs \<Rightarrow> occs)"

text \<open>
  The number of entries of \<open>endpoint_patterns\<close> that have the key \<open>k\<close> and whose pattern is
  found in the line.
\<close>

definition hits :: "(descriptor \<times> regex) list \<Rightarrow> ustr \<Rightarrow> descriptor \<Rightarrow> nat" where
  "hits ps line k = length (filter (\<lambda>(k', r). k' = k \<and> search r line) ps)"

text \<open>
  The occurrences with key \<open>k\<close> that one pass over the lines of a file appends, the first
  line having the number \<open>i\<close>; the lines that were read from a file; and the occurrences that
  the passes over a sequence of files append.
\<close>

fun line_occs ::
  "(descriptor \<times> regex) list \<Rightarrow> ustr \<Rightarrow> ustr \<Rightarrow> nat \<Rightarrow> ustr list \<Rightarrow> descriptor
     \<Rightarrow> occurrence list" where
  "line_occs ps fp pn i [] k = []"
| "line_occs ps fp pn i (l # ls) k =
     replicate (hits ps l k) (fp, i, pn) @ line_occs ps fp pn (Suc i) ls k"

fun lines_read :: "file_read \<Rightarrow> ustr list" where
  "lines_read (Lines ls) = ls"
| "lines_read (Failure ls e) = ls"

definition file_occs ::
  "(descriptor \<times> regex) list \<Rightarrow> ustr \<Rightarrow> (ustr \<times> file_read) list \<Rightarrow> descriptor
     \<Rightarrow> occurrence list" where
  "file_occs ps pn files k =
     concat (map (\<lambda>(fp, r). line_occs ps fp pn 1 (lines_read r) k) files)"

text \<open>A match map is a dictionary (no key twice) that binds no key to the empty list.\<close>

definition nonempty_entries :: "match_map \<Rightarrow> bool" where
  "nonempty_entries m = (distinct (map fst m) \<and> list_all (\<lambda>(k, occs). occs \<noteq> []) m)"

section \<open>Two example projects\<close>

text \<open>
  Project \<open>projA\<close> has a source file with two lines and a file that is not scanned; project
  \<open>projB\<close> has a source file whose first line holds the path \<open>/ping\<close> twice and a file that
  cannot be read.
\<close>

definition project_a :: project where
  "project_a = \<lparr>project_name = str_of ''projA'',
     walk = [(str_of ''/a'',
              [(str_of ''fileA.js'',
                Lines [str_of ''GET /ping'' @ [10], str_of ''fetch('/users/42')'' @ [10]]),
               (str_of ''README.md'', Lines [str_of ''/ping''])])]\<rparr>"

definition project_b :: project where
  "project_b = \<lparr>project_name = str_of ''projB'',
     walk = [(str_of ''/b'',
              [(str_of ''fileB.ts'', Lines [str_of ''GET /ping /ping'' @ [10], str_of ''/ping'']),
               (str_of ''bad.js'', Failure [] (str_of ''invalid start byte''))])]\<rparr>"

definition ping :: descriptor where
  "ping = (PStr (str_of ''/ping''), PStr [])"

definition get_user :: descriptor where
  "get_user = (PStr (str_of ''/users/{id}''), PStr (str_of ''GET''))"

definition admin :: descriptor where
  "admin = (PStr (str_of ''/admin''), PStr [])"

definition example_endpoints :: "descriptor list" where
  "example_endpoints = [ping, get_user, admin]"

definition used_a :: match_map where
  "used_a = [(ping, [(str_of ''/a/fileA.js'', 1, str_of ''projA'')]),
             (get_user, [(str_of ''/a/fileA.js'', 2, str_of ''projA'')])]"

definition used_b :: match_map where
  "used_b = [(ping, [(str_of ''/b/fileB.ts'', 1, str_of ''projB''),
                     (str_of ''/b/fileB.ts'', 2, str_of ''projB'')])]"

definition used_ab :: match_map where
  "used_ab = [(ping, [(str_of ''/a/fileA.js'', 1, str_of ''projA''),
                      (str_of ''/b/fileB.ts'', 1, str_of ''projB''),
                      (str_of ''/b/fileB.ts'', 2, str_of ''projB'')]),
              (get_user, [(str_of ''/a/fileA.js'', 2, str_of ''projA'')])]"

definition warnings_b :: "ustr list" where
  "warnings_b = [str_of ''Could not read /b/bad.js: invalid start byte'']"

text \<open>
  A plain-text upload with a line that ends in \<open>\r\n\<close>, a line of spaces, and a line with a
  leading tab, a letter outside ASCII and trailing spaces.
\<close>

definition example_upload :: upload where
  "example_upload = \<lparr>name = str_of ''endpoints.txt'',
     content = map of_nat (str_of ''/ping'' @ [13, 10] @ str_of ''   '' @ [10]
                 @ [9] @ str_of ''/caf'' @ [195, 169] @ str_of ''/{id}  '' @ [10])\<rparr>"

text \<open>A parsed document without the key \<open>paths\<close>.\<close>

definition example_spec :: "(pyval \<times> pyval) list" where
  "example_spec =
     [(PStr (str_of ''openapi''), PStr (str_of ''3.0.0'')),
      (PStr (str_of ''info''), PDict [(PStr (str_of ''title''), PStr (str_of ''Demo''))])]"

section \<open>Pattern Compiler: the examples of the specification\<close>

text \<open>The definitions that the evaluation of a matcher on a given line unfolds.\<close>

lemmas eval_defs = endpoint_matches_def endpoint_to_regex_def pattern_text_def re_escape_def
  special_chars_def str_of_def wildcard_def tail_text_def rstrip_slash_def re_compile_def
  search_def plain_set_char_def ident_start_def ident_char_def ascii_upper_def ascii_lower_def
  ascii_digit_def unicode_tolower_def unicode_iscased_def extra_cases_def folded_def

text \<open>
  C1. The specification says that both placeholder syntaxes are widened to a non-slash run,
  so that the matcher of \<open>/users/:id\<close> accepts the lines \<open>/users/42/\<close> and
  \<open>/users/42?x=1\<close>. The code does not do this: \<open>re.escape\<close> leaves the colon as it is,
  the first substitution looks for a backslash before the colon and finds none, and the
  pattern text keeps \<open>:id\<close> as literal text. The matcher rejects both lines; it accepts
  the template's own text.
\<close>

theorem colon_placeholder_not_widened:
  "pattern_text (str_of ''/users/:id'') = str_of ''/users/:id'' @ tail_text
   \<and> endpoint_matches (str_of ''/users/:id'') (str_of ''/users/42/'') = Some False
   \<and> endpoint_matches (str_of ''/users/:id'') (str_of ''/users/42?x=1'') = Some False
   \<and> endpoint_matches (str_of ''/users/:id'') (str_of ''/users/:id'') = Some True"
  by (simp add: eval_defs)

text \<open>
  C2. The specification says that the matcher compiled from \<open>/users/{id}\<close> accepts the line
  \<open>fetch('/users/42')\<close> and rejects the line \<open>/users/42/extra\<close>. The placeholder is widened
  to \<open>[^/]+\<close> and the first line is accepted, but the second line is accepted too, with or
  without the newline that ends a line read from a file: behind the optional slash the
  appended group takes \<open>extra\<close>, because its doubled backslash makes the question mark a
  quantifier of a literal backslash instead of a literal question mark.
\<close>

theorem brace_placeholder_accepts_further_segment:
  "pattern_text (str_of ''/users/{id}'') = str_of ''/users/[^/]+'' @ tail_text
   \<and> endpoint_matches (str_of ''/users/{id}'') (str_of ''fetch('/users/42')'') = Some True
   \<and> endpoint_matches (str_of ''/users/{id}'') (str_of ''fetch('/users/42')'' @ [10]) = Some True
   \<and> endpoint_matches (str_of ''/users/{id}'') (str_of ''/users/42/extra'') = Some True
   \<and> endpoint_matches (str_of ''/users/{id}'') (str_of ''/users/42/extra'' @ [10]) = Some True"
  by (simp add: eval_defs)

text \<open>
  C3. The specification says that the matcher compiled from the placeholder-free template
  \<open>/health\<close> accepts the lines \<open>GET /health\<close> and \<open>/health/\<close> and rejects the line
  \<open>/healthcheck\<close>. The first two lines are accepted, but so is the third, with or without
  its newline: the appended group takes \<open>check\<close>. A line that lacks the template's text,
  such as \<open>/healt\<close>, is rejected.
\<close>

theorem literal_template_accepts_longer_word:
  "endpoint_matches (str_of ''/health'') (str_of ''GET /health'') = Some True
   \<and> endpoint_matches (str_of ''/health'') (str_of ''/health/'') = Some True
   \<and> endpoint_matches (str_of ''/health'') (str_of ''/healthcheck'') = Some True
   \<and> endpoint_matches (str_of ''/health'') (str_of ''/healthcheck'' @ [10]) = Some True
   \<and> endpoint_matches (str_of ''/health'') (str_of ''/healt'') = Some False"
  by (simp add: eval_defs)

section \<open>Scanning and merging, key by key\<close>

lemma map_of_record_match:
  "map_of (record_match k occ used) k' =
     (if k' = k then Some (occs_of used k @ [occ]) else map_of used k')"
  by (auto simp: record_match_def occs_of_def update_conv' Let_def split: option.splits)

lemma distinct_record_match:
  "distinct (map fst used) \<Longrightarrow> distinct (map fst (record_match k occ used))"
  by (simp add: record_match_def Let_def distinct_update split: option.splits)

lemma occs_of_record_match:
  "occs_of (record_match k occ used) k' =
     (if k' = k then occs_of used k @ [occ] else occs_of used k')"
  by (simp add: occs_of_def map_of_record_match)

lemma map_of_scan_line:
  "map_of (scan_line ps line occ used) k =
     (if hits ps line k = 0 then map_of used k
      else Some (occs_of used k @ replicate (hits ps line k) occ))"
proof (induction ps arbitrary: used)
  case Nil
  show ?case by (simp add: hits_def)
next
  case (Cons p ps)
  obtain key pattern where p: "p = (key, pattern)" by (cases p)
  show ?case
    by (simp add: p Cons.IH hits_def occs_of_record_match map_of_record_match
        replicate_append_same occs_of_def)
qed

lemma distinct_scan_line:
  "distinct (map fst used) \<Longrightarrow> distinct (map fst (scan_line ps line occ used))"
  by (induction ps arbitrary: used) (auto simp: distinct_record_match)

lemma occs_of_scan_line:
  "occs_of (scan_line ps line occ used) k = occs_of used k @ replicate (hits ps line k) occ"
  by (simp add: occs_of_def map_of_scan_line)

lemma map_of_scan_lines:
  "map_of (scan_lines ps fp pn i ls used) k =
     (if line_occs ps fp pn i ls k = [] then map_of used k
      else Some (occs_of used k @ line_occs ps fp pn i ls k))"
proof (induction ls arbitrary: i used)
  case Nil
  show ?case by simp
next
  case (Cons l ls)
  show ?case
    by (simp add: Cons.IH map_of_scan_line occs_of_scan_line occs_of_def)
qed

lemma distinct_scan_lines:
  "distinct (map fst used) \<Longrightarrow> distinct (map fst (scan_lines ps fp pn i ls used))"
  by (induction ls arbitrary: i used) (auto simp: distinct_scan_line)

lemma occs_of_scan_lines:
  "occs_of (scan_lines ps fp pn i ls used) k = occs_of used k @ line_occs ps fp pn i ls k"
  by (simp add: occs_of_def map_of_scan_lines)

lemma file_occs_Nil: "file_occs ps pn [] k = []"
  by (simp add: file_occs_def)

lemma file_occs_Cons:
  "file_occs ps pn ((fp, r) # files) k =
     line_occs ps fp pn 1 (lines_read r) k @ file_occs ps pn files k"
  by (simp add: file_occs_def)

lemma map_of_scan_files:
  "map_of (fst (scan_files ps pn files (used, ws))) k =
     (if file_occs ps pn files k = [] then map_of used k
      else Some (occs_of used k @ file_occs ps pn files k))"
proof (induction files arbitrary: used ws)
  case Nil
  show ?case by (simp add: file_occs_Nil)
next
  case (Cons f files)
  obtain fp r where f: "f = (fp, r)" by (cases f)
  show ?case
    unfolding f
    by (cases r)
      (simp_all add: file_occs_Cons Cons.IH map_of_scan_lines occs_of_scan_lines occs_of_def)
qed

lemma distinct_scan_files:
  "distinct (map fst used) \<Longrightarrow> distinct (map fst (fst (scan_files ps pn files (used, ws))))"
proof (induction files arbitrary: used ws)
  case Nil
  then show ?case by simp
next
  case (Cons f files)
  obtain fp r where f: "f = (fp, r)" by (cases f)
  show ?case
    by (cases r) (simp_all add: f Cons.IH Cons.prems distinct_scan_lines)
qed

lemma map_of_extend_entry:
  "map_of (extend_entry key val used_map) k =
     (if k = key then Some (occs_of used_map key @ val) else map_of used_map k)"
  by (auto simp: extend_entry_def occs_of_def update_conv' Let_def split: option.splits)

lemma distinct_extend_entry:
  "distinct (map fst used_map) \<Longrightarrow> distinct (map fst (extend_entry key val used_map))"
  by (simp add: extend_entry_def Let_def distinct_update split: option.splits)

lemma map_of_merge_items:
  "distinct (map fst p) \<Longrightarrow>
   map_of (merge_items p used_map) k =
     (case map_of p k of None \<Rightarrow> map_of used_map k | Some v \<Rightarrow> Some (occs_of used_map k @ v))"
proof (induction p arbitrary: used_map)
  case Nil
  show ?case by simp
next
  case (Cons kv p)
  obtain key val where kv: "kv = (key, val)" by (cases kv)
  from Cons.prems have d: "distinct (map fst p)" and notin: "key \<notin> fst ` set p"
    by (auto simp: kv)
  from notin have none: "map_of p key = None"
    by (simp add: map_of_eq_None_iff)
  show ?case
    unfolding kv merge_items.simps
    by (simp add: Cons.IH [OF d] map_of_extend_entry occs_of_def none split: option.splits)
qed

lemma distinct_merge_items:
  "distinct (map fst used_map) \<Longrightarrow> distinct (map fst (merge_items p used_map))"
proof (induction p arbitrary: used_map)
  case Nil
  then show ?case by simp
next
  case (Cons kv p)
  obtain key val where kv: "kv = (key, val)" by (cases kv)
  show ?case
    unfolding kv merge_items.simps
    by (rule Cons.IH) (rule distinct_extend_entry [OF Cons.prems])
qed




lemma find_endpoints_in_code_map_of:
  assumes "find_endpoints_in_code p endpoints = Inr (used, ws)"
  shows "\<exists>patterns. endpoint_patterns endpoints = Inr patterns
    \<and> distinct (map fst used)
    \<and> (\<forall>k. map_of used k =
          (if file_occs patterns (project_name p) (opened_files p) k = [] then None
           else Some (file_occs patterns (project_name p) (opened_files p) k)))"
proof -
  from assms obtain patterns where ps: "endpoint_patterns endpoints = Inr patterns"
    and res: "scan_files patterns (project_name p) (opened_files p) ([], []) = (used, ws)"
    by (auto simp: find_endpoints_in_code_def split: sum.splits)
  have u: "used = fst (scan_files patterns (project_name p) (opened_files p) ([], []))"
    by (simp add: res)
  have "distinct (map fst used)"
    unfolding u by (rule distinct_scan_files) simp
  moreover have "map_of used k =
          (if file_occs patterns (project_name p) (opened_files p) k = [] then None
           else Some (file_occs patterns (project_name p) (opened_files p) k))" for k
    unfolding u by (simp add: map_of_scan_files occs_of_def)
  ultimately show ?thesis using ps by blast
qed

lemma nonempty_entries_member:
  "nonempty_entries m \<Longrightarrow> (k, occs) \<in> set m \<Longrightarrow> occs \<noteq> []"
  by (auto simp: nonempty_entries_def list_all_iff)

lemma nonempty_entries_map_of:
  "nonempty_entries m \<Longrightarrow> map_of m k = Some occs \<Longrightarrow> occs \<noteq> []"
  by (auto simp: nonempty_entries_def list_all_iff dest!: map_of_SomeD)

lemma nonempty_entriesI:
  assumes "distinct (map fst m)" and "\<And>k occs. map_of m k = Some occs \<Longrightarrow> occs \<noteq> []"
  shows "nonempty_entries m"
  unfolding nonempty_entries_def list_all_iff
proof (intro conjI ballI)
  show "distinct (map fst m)" by fact
next
  fix x assume x: "x \<in> set m"
  obtain k occs where kv: "x = (k, occs)" by (cases x)
  from x assms(1) have "map_of m k = Some occs" by (simp add: kv)
  from assms(2) [OF this] show "case x of (k, occs) \<Rightarrow> occs \<noteq> []" by (simp add: kv)
qed

lemma nonempty_find_endpoints_in_code:
  assumes "find_endpoints_in_code p endpoints = Inr (used, ws)"
  shows "nonempty_entries used"
proof -
  from find_endpoints_in_code_map_of [OF assms] obtain patterns where
    d: "distinct (map fst used)"
    and m: "\<And>k. map_of used k =
          (if file_occs patterns (project_name p) (opened_files p) k = [] then None
           else Some (file_occs patterns (project_name p) (opened_files p) k))"
    by blast
  show ?thesis
  proof (rule nonempty_entriesI [OF d])
    fix k occs assume "map_of used k = Some occs"
    with m [of k] show "occs \<noteq> []" by (auto split: if_splits)
  qed
qed

lemma nonempty_merge_items:
  assumes "nonempty_entries p" "nonempty_entries used_map"
  shows "nonempty_entries (merge_items p used_map)"
proof (rule nonempty_entriesI)
  show "distinct (map fst (merge_items p used_map))"
    using assms(2) by (simp add: distinct_merge_items nonempty_entries_def)
next
  fix k occs assume a: "map_of (merge_items p used_map) k = Some occs"
  have d: "distinct (map fst p)" using assms(1) by (simp add: nonempty_entries_def)
  show "occs \<noteq> []"
  proof (cases "map_of p k")
    case None
    with a have "map_of used_map k = Some occs" by (simp add: map_of_merge_items [OF d])
    then show ?thesis by (rule nonempty_entries_map_of [OF assms(2)])
  next
    case (Some v)
    from nonempty_entries_map_of [OF assms(1) Some] have "v \<noteq> []" .
    with a Some show ?thesis by (auto simp: map_of_merge_items [OF d])
  qed
qed

lemma nonempty_scan_projects:
  "scan_projects ps endpoints (used_map, ws) = Inr (m, w) \<Longrightarrow> nonempty_entries used_map \<Longrightarrow>
   nonempty_entries m"
proof (induction ps arbitrary: used_map ws)
  case Nil
  then show ?case by simp
next
  case (Cons p ps)
  from Cons.prems(1) obtain partial_used ws' where
    f: "find_endpoints_in_code p endpoints = Inr (partial_used, ws')"
    and r: "scan_projects ps endpoints (merge_items partial_used used_map, ws @ ws') = Inr (m, w)"
    by (auto split: sum.splits)
  show ?case
    by (rule Cons.IH [OF r])
      (rule nonempty_merge_items [OF nonempty_find_endpoints_in_code [OF f] Cons.prems(2)])
qed









lemma scan_projects_merge_all:
  "scan_projects ps endpoints (used_map, ws) = Inr (m, w) \<Longrightarrow>
   \<exists>rs. map (\<lambda>p. find_endpoints_in_code p endpoints) ps = map Inr rs
        \<and> m = merge_all (map fst rs) used_map \<and> w = ws @ concat (map snd rs)"
proof (induction ps arbitrary: used_map ws)
  case Nil
  then show ?case by simp
next
  case (Cons p ps)
  from Cons.prems obtain partial_used ws' where
    f: "find_endpoints_in_code p endpoints = Inr (partial_used, ws')"
    and r: "scan_projects ps endpoints (merge_items partial_used used_map, ws @ ws') = Inr (m, w)"
    by (auto split: sum.splits)
  from Cons.IH [OF r] obtain rs where
    rs: "map (\<lambda>p. find_endpoints_in_code p endpoints) ps = map Inr rs"
    and m: "m = merge_all (map fst rs) (merge_items partial_used used_map)"
    and w: "w = (ws @ ws') @ concat (map snd rs)" by blast
  show ?case
    by (rule exI [of _ "(partial_used, ws') # rs"]) (simp add: f rs m w)
qed


lemma nonempty_merge_all:
  "\<forall>p\<in>set ps. nonempty_entries p \<Longrightarrow> nonempty_entries used_map \<Longrightarrow>
   nonempty_entries (merge_all ps used_map)"
  by (induction ps arbitrary: used_map) (auto simp: nonempty_merge_items)






lemma comprehension_as_filter:
  "concat (map (\<lambda>x. if P (f x) then [g (f x)] else []) xs) = map g (filter P (map f xs))"
  by (induction xs) auto

section \<open>The example projects, evaluated\<close>

lemmas scan_defs = find_endpoints_in_code_def opened_files_def source_file_def endswith_def
  path_join_def record_match_def extend_entry_def warning_text_def project_a_def project_b_def
  example_endpoints_def ping_def get_user_def admin_def used_a_def used_b_def used_ab_def
  warnings_b_def

lemma scan_a: "find_endpoints_in_code project_a example_endpoints = Inr (used_a, [])"
  by (simp add: scan_defs eval_defs)

lemma scan_b: "find_endpoints_in_code project_b example_endpoints = Inr (used_b, warnings_b)"
  by (simp add: scan_defs eval_defs)

lemma merge_ab: "merge_items used_b (merge_items used_a []) = used_ab"
  by (simp add: scan_defs str_of_def)

lemma scan_ab:
  "scan_projects [project_a, project_b] example_endpoints ([], []) = Inr (used_ab, warnings_b)"
  by (simp add: scan_a scan_b merge_ab)


lemma example_decode:
  "utf8_decode (content example_upload) =
     Some (str_of ''/ping'' @ [13, 10] @ str_of ''   '' @ [10] @ [9] @ str_of ''/caf'' @ [233]
           @ str_of ''/{id}  '' @ [10])"
  by (simp add: example_upload_def str_of_def cont_def)

lemma example_lines:
  "map (\<lambda>line. (PStr line, PStr [])) (filter (\<lambda>line. line \<noteq> []) (map strip (splitlines
      (str_of ''/ping'' @ [13, 10] @ str_of ''   '' @ [10] @ [9] @ str_of ''/caf'' @ [233]
       @ str_of ''/{id}  '' @ [10]))))
     = [(PStr (str_of ''/ping''), PStr []), (PStr (str_of ''/caf'' @ [233] @ str_of ''/{id}''), PStr [])]"
  by (simp add: splitlines_def line_boundary_def strip_def whitespace_def str_of_def)

section \<open>Report Builder\<close>



section \<open>Spec Loader\<close>

text \<open>
  C5. Plain-list mode is the branch taken for a file whose name ends in none of \<open>.json\<close>,
  \<open>.yaml\<close> and \<open>.yml\<close>. For every content that is the UTF-8 encoding of a text, the
  loader returns, in line order, the descriptor \<open>(trimmed line, "")\<close> for each line of the
  text whose trimmed content is not empty, and nothing for the other lines.
\<close>

theorem plain_list_descriptors:
  assumes "\<not> endswith (name f) (str_of ''.json'')"
    and "\<not> endswith (name f) (str_of ''.yaml'')"
    and "\<not> endswith (name f) (str_of ''.yml'')"
    and "utf8_decode (content f) = Some text"
  shows "load_endpoints json_load yaml_safe_load f =
           Inr (map (\<lambda>line. (PStr line, PStr []))
                  (filter (\<lambda>line. line \<noteq> []) (map strip (splitlines text))))"
  using assms
    comprehension_as_filter
      [of "\<lambda>line. line \<noteq> []" strip "\<lambda>line. (PStr line, PStr [])" "splitlines text"]
  by (simp add: load_endpoints_def)

theorem plain_list_descriptors_witness:
  "load_endpoints (\<lambda>_. Inl []) (\<lambda>_. Inl []) example_upload =
     Inr [(PStr (str_of ''/ping''), PStr []),
          (PStr (str_of ''/caf'' @ [233] @ str_of ''/{id}''), PStr [])]"
proof -
  have 1: "\<not> endswith (name example_upload) (str_of ''.json'')"
    by (simp add: example_upload_def endswith_def str_of_def)
  have 2: "\<not> endswith (name example_upload) (str_of ''.yaml'')"
    by (simp add: example_upload_def endswith_def str_of_def)
  have 3: "\<not> endswith (name example_upload) (str_of ''.yml'')"
    by (simp add: example_upload_def endswith_def str_of_def)
  from plain_list_descriptors [OF 1 2 3 example_decode, of "\<lambda>_. Inl []" "\<lambda>_. Inl []"]
  show ?thesis by (simp only: example_lines)
qed

text \<open>
  C8. When the parser of the document's format rejects the bytes, the exception it raises
  leaves \<open>load_endpoints\<close> with its cause: the result is that error and no descriptor list.
  This holds for a name that ends in \<open>.json\<close> with \<open>json.load\<close>, and for a name that ends
  in \<open>.yaml\<close> or \<open>.yml\<close> (and not in \<open>.json\<close>) with \<open>yaml.safe_load\<close>.
\<close>

theorem malformed_document_fails:
  "(endswith (name f) (str_of ''.json'') \<longrightarrow> json_load (content f) = Inl cause \<longrightarrow>
      load_endpoints json_load yaml_safe_load f = Inl (ParseError cause))
   \<and> (\<not> endswith (name f) (str_of ''.json'') \<longrightarrow>
      endswith (name f) (str_of ''.yaml'') \<or> endswith (name f) (str_of ''.yml'') \<longrightarrow>
      yaml_safe_load (content f) = Inl cause \<longrightarrow>
      load_endpoints json_load yaml_safe_load f = Inl (ParseError cause))"
  by (simp add: load_endpoints_def)

theorem malformed_document_fails_witness:
  "load_endpoints (\<lambda>_. Inl (str_of ''Expecting value'')) (\<lambda>_. Inr PNone)
       \<lparr>name = str_of ''openapi.json'', content = []\<rparr> = Inl (ParseError (str_of ''Expecting value''))
   \<and> load_endpoints (\<lambda>_. Inr PNone) (\<lambda>_. Inl (str_of ''mapping values are not allowed here''))
       \<lparr>name = str_of ''openapi.yml'', content = []\<rparr>
       = Inl (ParseError (str_of ''mapping values are not allowed here''))"
proof -
  have j: "endswith (name \<lparr>name = str_of ''openapi.json'', content = ([] :: byte list)\<rparr>)
             (str_of ''.json'')"
    by (simp add: endswith_def str_of_def)
  have y1: "\<not> endswith (name \<lparr>name = str_of ''openapi.yml'', content = ([] :: byte list)\<rparr>)
             (str_of ''.json'')"
    by (simp add: endswith_def str_of_def)
  have y2: "endswith (name \<lparr>name = str_of ''openapi.yml'', content = ([] :: byte list)\<rparr>)
             (str_of ''.yml'')"
    by (simp add: endswith_def str_of_def)
  from malformed_document_fails
    [of "\<lparr>name = str_of ''openapi.json'', content = []\<rparr>" "\<lambda>_. Inl (str_of ''Expecting value'')"
        "str_of ''Expecting value''" "\<lambda>_. Inr PNone"] j
  have a: "load_endpoints (\<lambda>_. Inl (str_of ''Expecting value'')) (\<lambda>_. Inr PNone)
       \<lparr>name = str_of ''openapi.json'', content = []\<rparr> = Inl (ParseError (str_of ''Expecting value''))"
    by simp
  from malformed_document_fails
    [of "\<lparr>name = str_of ''openapi.yml'', content = []\<rparr>" "\<lambda>_. Inr PNone"
        "str_of ''mapping values are not allowed here''"
        "\<lambda>_. Inl (str_of ''mapping values are not allowed here'')"] y1 y2
  have b: "load_endpoints (\<lambda>_. Inr PNone) (\<lambda>_. Inl (str_of ''mapping values are not allowed here''))
       \<lparr>name = str_of ''openapi.yml'', content = []\<rparr>
       = Inl (ParseError (str_of ''mapping values are not allowed here''))"
    by simp
  from a b show ?thesis by simp
qed

text \<open>
  C9. When the parser returns a dictionary that has no key \<open>paths\<close>, the loader returns the
  empty descriptor list, for a JSON document and for a YAML document alike; and the
  descriptors of such a dictionary are those of the same dictionary extended by the entry
  \<open>"paths": {}\<close>, so the two cannot be told apart by the result.
\<close>

theorem missing_paths_is_empty_list:
  assumes "map_of entries (PStr (str_of ''paths'')) = None"
  shows "(endswith (name f) (str_of ''.json'') \<longrightarrow> json_load (content f) = Inr (PDict entries) \<longrightarrow>
            load_endpoints json_load yaml_safe_load f = Inr [])
     \<and> (\<not> endswith (name f) (str_of ''.json'') \<longrightarrow>
          endswith (name f) (str_of ''.yaml'') \<or> endswith (name f) (str_of ''.yml'') \<longrightarrow>
          yaml_safe_load (content f) = Inr (PDict entries) \<longrightarrow>
            load_endpoints json_load yaml_safe_load f = Inr [])
     \<and> spec_endpoints (PDict entries) = Inr []
     \<and> spec_endpoints (PDict (entries @ [(PStr (str_of ''paths''), PDict [])])) = Inr []"
  using assms by (simp add: load_endpoints_def spec_endpoints_def map_add_def)

theorem missing_paths_is_empty_list_witness:
  "load_endpoints (\<lambda>_. Inr (PDict example_spec)) (\<lambda>_. Inl [])
       \<lparr>name = str_of ''openapi.json'', content = []\<rparr> = Inr []
   \<and> load_endpoints (\<lambda>_. Inl []) (\<lambda>_. Inr (PDict example_spec))
       \<lparr>name = str_of ''openapi.yaml'', content = []\<rparr> = Inr []
   \<and> spec_endpoints (PDict example_spec) = Inr []"
proof -
  have e: "map_of example_spec (PStr (str_of ''paths'')) = None"
    by (simp add: example_spec_def str_of_def)
  have j: "endswith (name \<lparr>name = str_of ''openapi.json'', content = ([] :: byte list)\<rparr>)
             (str_of ''.json'')"
    by (simp add: endswith_def str_of_def)
  have y1: "\<not> endswith (name \<lparr>name = str_of ''openapi.yaml'', content = ([] :: byte list)\<rparr>)
             (str_of ''.json'')"
    by (simp add: endswith_def str_of_def)
  have y2: "endswith (name \<lparr>name = str_of ''openapi.yaml'', content = ([] :: byte list)\<rparr>)
             (str_of ''.yaml'')"
    by (simp add: endswith_def str_of_def)
  from missing_paths_is_empty_list
    [OF e, of "\<lparr>name = str_of ''openapi.json'', content = []\<rparr>"
       "\<lambda>_. Inr (PDict example_spec)" "\<lambda>_. Inl []"] j
  have a: "load_endpoints (\<lambda>_. Inr (PDict example_spec)) (\<lambda>_. Inl [])
       \<lparr>name = str_of ''openapi.json'', content = []\<rparr> = Inr []"
    and c: "spec_endpoints (PDict example_spec) = Inr []"
    by simp_all
  from missing_paths_is_empty_list
    [OF e, of "\<lparr>name = str_of ''openapi.yaml'', content = []\<rparr>"
       "\<lambda>_. Inl []" "\<lambda>_. Inr (PDict example_spec)"] y1 y2
  have b: "load_endpoints (\<lambda>_. Inl []) (\<lambda>_. Inr (PDict example_spec))
       \<lparr>name = str_of ''openapi.yaml'', content = []\<rparr> = Inr []"
    by simp
  from a b c show ?thesis by simp
qed

section \<open>Aggregator\<close>



section \<open>Tree Scanner\<close>

text \<open>
  C7. In the match map that \<open>find_endpoints_in_code\<close> returns, in the match map that the
  main loop has merged from the scans of a sequence of projects, and in the map merged from
  any sequence of maps without empty lists, every key is bound to a non-empty occurrence
  list.
\<close>

theorem match_map_entries_nonempty:
  "(find_endpoints_in_code p endpoints = Inr (used, ws) \<longrightarrow>
      (\<forall>key occs. (key, occs) \<in> set used \<longrightarrow> occs \<noteq> []))
   \<and> (scan_projects ps endpoints ([], []) = Inr (used_map, ws') \<longrightarrow>
      (\<forall>key occs. (key, occs) \<in> set used_map \<longrightarrow> occs \<noteq> []))
   \<and> ((\<forall>m\<in>set partials. nonempty_entries m) \<longrightarrow>
      (\<forall>key occs. (key, occs) \<in> set (merge_all partials []) \<longrightarrow> occs \<noteq> []))"
proof (intro conjI impI allI)
  fix key occs
  assume f: "find_endpoints_in_code p endpoints = Inr (used, ws)" and m: "(key, occs) \<in> set used"
  from nonempty_entries_member [OF nonempty_find_endpoints_in_code [OF f] m]
  show "occs \<noteq> []" .
next
  fix key occs
  assume f: "scan_projects ps endpoints ([], []) = Inr (used_map, ws')"
    and m: "(key, occs) \<in> set used_map"
  have e: "nonempty_entries []" by (simp add: nonempty_entries_def)
  from nonempty_entries_member [OF nonempty_scan_projects [OF f e] m]
  show "occs \<noteq> []" .
next
  fix key occs
  assume a: "\<forall>m\<in>set partials. nonempty_entries m"
    and m: "(key, occs) \<in> set (merge_all partials [])"
  have e: "nonempty_entries []" by (simp add: nonempty_entries_def)
  from nonempty_entries_member [OF nonempty_merge_all [OF a e] m]
  show "occs \<noteq> []" .
qed

theorem match_map_entries_nonempty_witness:
  "find_endpoints_in_code project_a example_endpoints = Inr (used_a, [])
   \<and> list_all (\<lambda>(key, occs). occs \<noteq> []) used_a
   \<and> scan_projects [project_a, project_b] example_endpoints ([], []) = Inr (used_ab, warnings_b)
   \<and> list_all (\<lambda>(key, occs). occs \<noteq> []) used_ab
   \<and> nonempty_entries used_a \<and> nonempty_entries used_b
   \<and> list_all (\<lambda>(key, occs). occs \<noteq> []) (merge_all [used_a, used_b] [])"
proof -
  have n: "\<forall>m\<in>set [used_a, used_b]. nonempty_entries m"
    by (simp add: nonempty_entries_def scan_defs str_of_def)
  note t = match_map_entries_nonempty
    [of project_a example_endpoints used_a "[]" "[project_a, project_b]" used_ab warnings_b
        "[used_a, used_b]"]
  from t scan_a have "\<forall>key occs. (key, occs) \<in> set used_a \<longrightarrow> occs \<noteq> []"
    by blast
  then have a: "list_all (\<lambda>(key, occs). occs \<noteq> []) used_a"
    by (auto simp: list_all_iff)
  from t scan_ab have "\<forall>key occs. (key, occs) \<in> set used_ab \<longrightarrow> occs \<noteq> []"
    by blast
  then have b: "list_all (\<lambda>(key, occs). occs \<noteq> []) used_ab"
    by (auto simp: list_all_iff)
  from t n have
    "\<forall>key occs. (key, occs) \<in> set (merge_all [used_a, used_b] []) \<longrightarrow> occs \<noteq> []"
    by blast
  then have c: "list_all (\<lambda>(key, occs). occs \<noteq> []) (merge_all [used_a, used_b] [])"
    by (auto simp: list_all_iff)
  from n have na: "nonempty_entries used_a" and nb: "nonempty_entries used_b"
    by simp_all
  from scan_a a scan_ab b na nb c show ?thesis
    by (intro conjI)
qed




end
